theory Spec2Isabelle
  imports Main "HOL-Library.AList"
begin

section \<open>Values of the request body and of property reads\<close>

text \<open>
  \<^verbatim>\<open>server.js\<close> reads \<^verbatim>\<open>username\<close> and \<^verbatim>\<open>password\<close> out of the parsed request
  body. A field is either absent (the JavaScript value \<^verbatim>\<open>undefined\<close>) or a string.
  Strings are sequences of code units below 256; the other JSON kinds (numbers,
  booleans, null, arrays, objects) are outside this development.
\<close>

datatype jsval = Undefined | Str string

text \<open>\<^verbatim>\<open>!x\<close>: \<^verbatim>\<open>undefined\<close> and the empty string are falsy, every other string is truthy.\<close>

fun falsy :: "jsval \<Rightarrow> bool" where
  "falsy Undefined = True"
| "falsy (Str s) = (s = [])"

text \<open>
  A computed member access \<^verbatim>\<open>users[username]\<close> converts the key to a string first:
  \<^verbatim>\<open>undefined\<close> becomes the key \<^verbatim>\<open>"undefined"\<close>.
\<close>

fun to_key :: "jsval \<Rightarrow> string" where
  "to_key Undefined = ''undefined''"
| "to_key (Str s) = s"

section \<open>The stores\<close>

text \<open>
  \<^verbatim>\<open>const users = {}; // { username: { password, role } }\<close>
  The password is stored as received; the role is \<^verbatim>\<open>'user'\<close> or \<^verbatim>\<open>'admin'\<close>.
\<close>

record user =
  password :: jsval
  role :: string

text \<open>\<^verbatim>\<open>req.session.user = { username, role }\<close>\<close>

record session_user =
  su_username :: jsval
  su_role :: jsval

type_synonym sid = nat

text \<open>
  The state of the process.
  \<^item> \<open>users\<close>: the own properties of the object \<^verbatim>\<open>users\<close>.
  \<^item> \<open>tainted\<close>: \<^verbatim>\<open>users\<close> is a plain object literal, so a read \<^verbatim>\<open>users[k]\<close> that finds
    no own property continues in \<^verbatim>\<open>Object.prototype\<close>. The members found there are
    objects too, and \<^verbatim>\<open>users[k].role = 'admin'\<close> can write to them; \<open>tainted\<close> holds
    the names of the inherited members that carry an own \<^verbatim>\<open>role\<close> written this way.
  \<^item> \<open>sessions\<close>: the session store of \<^verbatim>\<open>express-session\<close>, restricted to the one
    property \<^verbatim>\<open>user\<close> that \<^verbatim>\<open>server.js\<close> writes; a request carries the identifier of
    its session, and \<open>sessions st sid = None\<close> says that \<^verbatim>\<open>req.session.user\<close> is not set.
  \<^item> \<open>uploads\<close>: the entries of the directory \<^verbatim>\<open>uploadsDir\<close>, each with the number of
    bytes written.
\<close>

record state =
  users :: "string \<rightharpoonup> user"
  tainted :: "string set"
  sessions :: "sid \<rightharpoonup> session_user"
  uploads :: "(string \<times> nat) list"

text \<open>The own property names of \<^verbatim>\<open>Object.prototype\<close> (string keys).\<close>

definition object_prototype_keys :: "string list" where
  "object_prototype_keys =
     [''constructor'', ''__defineGetter__'', ''__defineSetter__'', ''hasOwnProperty'',
      ''__lookupGetter__'', ''__lookupSetter__'', ''isPrototypeOf'',
      ''propertyIsEnumerable'', ''toString'', ''valueOf'', ''__proto__'',
      ''toLocaleString'']"

text \<open>
  What \<^verbatim>\<open>users[k]\<close> evaluates to: a stored record, a member inherited from
  \<^verbatim>\<open>Object.prototype\<close> (a built-in function, or \<^verbatim>\<open>Object.prototype\<close> itself for the key
  \<^verbatim>\<open>__proto__\<close>), a primitive string, or \<^verbatim>\<open>undefined\<close>.
\<close>

datatype lookup = Rec user | Member string | Prim string | Absent

text \<open>\<^verbatim>\<open>Object.prototype.role\<close> has been written (through the key \<^verbatim>\<open>__proto__\<close>).\<close>

definition polluted :: "state \<Rightarrow> bool" where
  "polluted st = (''__proto__'' \<in> tainted st)"

definition users_get :: "state \<Rightarrow> string \<Rightarrow> lookup" where
  "users_get st k =
     (case users st k of
        Some u \<Rightarrow> Rec u
      | None \<Rightarrow>
          if k \<in> set object_prototype_keys then Member k
          else if k = ''role'' \<and> polluted st then Prim ''admin''
          else Absent)"

text \<open>Objects, functions and non-empty strings are truthy.\<close>

fun truthy :: "lookup \<Rightarrow> bool" where
  "truthy (Rec u) = True"
| "truthy (Member m) = True"
| "truthy (Prim s) = (s \<noteq> [])"
| "truthy Absent = False"

text \<open>\<^verbatim>\<open>u.password\<close>: only stored records have such a property.\<close>

fun password_of :: "lookup \<Rightarrow> jsval" where
  "password_of (Rec u) = password u"
| "password_of (Member m) = Undefined"
| "password_of (Prim s) = Undefined"
| "password_of Absent = Undefined"

text \<open>
  \<^verbatim>\<open>u.role\<close>: the own property of a stored record; for an inherited member its own
  \<^verbatim>\<open>role\<close> if one was written, else the one inherited from \<^verbatim>\<open>Object.prototype\<close>.
\<close>

fun role_of :: "state \<Rightarrow> lookup \<Rightarrow> jsval" where
  "role_of st (Rec u) = Str (role u)"
| "role_of st (Member m) =
     (if m \<in> tainted st then Str ''admin''
      else if polluted st then Str ''admin'' else Undefined)"
| "role_of st (Prim s) = (if polluted st then Str ''admin'' else Undefined)"
| "role_of st Absent = Undefined"

text \<open>
  \<^verbatim>\<open>req.session.user.role\<close> in a later request. The session store keeps a session as
  JSON text, which drops a property whose value is \<^verbatim>\<open>undefined\<close>; the read then finds
  what \<^verbatim>\<open>Object.prototype\<close> provides.
\<close>

definition session_role :: "state \<Rightarrow> session_user \<Rightarrow> jsval" where
  "session_role st su =
     (case su_role su of
        Str r \<Rightarrow> Str r
      | Undefined \<Rightarrow> if polluted st then Str ''admin'' else Undefined)"

section \<open>Responses\<close>

datatype body =
    Ok
  | OkFile string string
  | OkUploads "(string \<times> string) list"
  | Error string
  | DefaultErrorPage

type_synonym response = "nat \<times> body"

section \<open>Signup, login, logout\<close>

text \<open>
  \<^verbatim>\<open>
  app.post('/api/signup', (req, res) => {
    const { username, password } = req.body;
    if (!username || !password) return res.status(400).json({ error: 'missing' });
    if (users[username]) return res.status(409).json({ error: 'exists' });
    users[username] = { password, role: 'user' };
    req.session.user = { username, role: 'user' };
    return res.json({ ok: true });
  });
  \<close>
\<close>

definition signup :: "state \<Rightarrow> sid \<Rightarrow> jsval \<Rightarrow> jsval \<Rightarrow> response \<times> state" where
  "signup st sid username pw =
     (if falsy username then ((400, Error ''missing''), st)
      else if falsy pw then ((400, Error ''missing''), st)
      else if truthy (users_get st (to_key username)) then ((409, Error ''exists''), st)
      else ((200, Ok),
            st\<lparr>users := (users st)(to_key username \<mapsto> \<lparr>password = pw, role = ''user''\<rparr>),
               sessions := (sessions st)(sid \<mapsto>
                 \<lparr>su_username = username, su_role = Str ''user''\<rparr>)\<rparr>))"

text \<open>
  \<^verbatim>\<open>
  app.post('/api/login', (req, res) => {
    const { username, password } = req.body;
    const u = users[username];
    if (!u || u.password !== password) return res.status(401).json({ error: 'invalid' });
    req.session.user = { username, role: u.role };
    return res.json({ ok: true });
  });
  \<close>
\<close>

definition login :: "state \<Rightarrow> sid \<Rightarrow> jsval \<Rightarrow> jsval \<Rightarrow> response \<times> state" where
  "login st sid username pw =
     (let u = users_get st (to_key username) in
      if \<not> truthy u then ((401, Error ''invalid''), st)
      else if password_of u \<noteq> pw then ((401, Error ''invalid''), st)
      else ((200, Ok),
            st\<lparr>sessions := (sessions st)(sid \<mapsto>
                 \<lparr>su_username = username, su_role = role_of st u\<rparr>)\<rparr>))"

text \<open>
  \<^verbatim>\<open>
  app.post('/api/logout', (req, res) => {
    req.session.destroy(() => res.json({ ok: true }));
  });
  \<close>
\<close>

definition logout :: "state \<Rightarrow> sid \<Rightarrow> response \<times> state" where
  "logout st sid = ((200, Ok), st\<lparr>sessions := (sessions st)(sid := None)\<rparr>)"

section \<open>The gates\<close>

text \<open>
  A middleware either answers (\<open>Some\<close> response) or calls \<^verbatim>\<open>next()\<close> (\<open>None\<close>).
  \<^verbatim>\<open>
  function authRequired(req, res, next) {
    if (req.session && req.session.user) return next();
    return res.status(401).json({ error: 'unauthorized' });
  }
  function adminRequired(req, res, next) {
    if (req.session && req.session.user && req.session.user.role === 'admin') return next();
    return res.status(403).json({ error: 'forbidden' });
  }
  \<close>
\<close>

definition authRequired :: "state \<Rightarrow> sid \<Rightarrow> response option" where
  "authRequired st sid =
     (case sessions st sid of
        Some su \<Rightarrow> None
      | None \<Rightarrow> Some (401, Error ''unauthorized''))"

definition adminRequired :: "state \<Rightarrow> sid \<Rightarrow> response option" where
  "adminRequired st sid =
     (case sessions st sid of
        Some su \<Rightarrow>
          if session_role st su = Str ''admin'' then None
          else Some (403, Error ''forbidden'')
      | None \<Rightarrow> Some (403, Error ''forbidden''))"

section \<open>Startup\<close>

text \<open>\<^verbatim>\<open>users['admin'] = { password: 'adminpass', role: 'admin' };\<close>\<close>

definition init :: "(string \<times> nat) list \<Rightarrow> state" where
  "init dir =
     \<lparr>users = [''admin'' \<mapsto> \<lparr>password = Str ''adminpass'', role = ''admin''\<rparr>],
      tainted = {},
      sessions = Map.empty,
      uploads = dir\<rparr>"

section \<open>Admin-only operations\<close>

text \<open>
  \<^verbatim>\<open>users[username].role = 'admin'\<close>, once \<^verbatim>\<open>users[username]\<close> was found truthy: a stored
  record is updated; an inherited member receives an own \<^verbatim>\<open>role\<close>; an assignment to a
  property of a primitive string is ignored (the file is not in strict mode). The
  last case is not reached: the handler has answered 404 before.
\<close>

fun set_role_admin :: "state \<Rightarrow> string \<Rightarrow> lookup \<Rightarrow> state" where
  "set_role_admin st k (Rec u) = st\<lparr>users := (users st)(k \<mapsto> u\<lparr>role := ''admin''\<rparr>)\<rparr>"
| "set_role_admin st k (Member m) = st\<lparr>tainted := insert m (tainted st)\<rparr>"
| "set_role_admin st k (Prim s) = st"
| "set_role_admin st k Absent = st"

text \<open>
  \<^verbatim>\<open>
  app.post('/api/promote', adminRequired, (req, res) => {
    const { username } = req.body;
    if (!users[username]) return res.status(404).json({ error: 'no user' });
    users[username].role = 'admin';
    res.json({ ok: true });
  });
  \<close>
\<close>

definition promote_handler :: "state \<Rightarrow> jsval \<Rightarrow> response \<times> state" where
  "promote_handler st username =
     (let u = users_get st (to_key username) in
      if \<not> truthy u then ((404, Error ''no user''), st)
      else ((200, Ok), set_role_admin st (to_key username) u))"

definition promote :: "state \<Rightarrow> sid \<Rightarrow> jsval \<Rightarrow> response \<times> state" where
  "promote st sid username =
     (case adminRequired st sid of
        Some r \<Rightarrow> (r, st)
      | None \<Rightarrow> promote_handler st username)"

text \<open>
  \<^verbatim>\<open>
  app.get('/api/uploads', adminRequired, (req, res) => {
    fs.readdir(uploadsDir, (err, files) => {
      if (err) return res.status(500).json({ error: 'read failed' });
      const list = files.map(f => ({ file: '/uploads/' + f, name: f }));
      res.json({ ok: true, uploads: list });
    });
  });
  \<close>
  What \<^verbatim>\<open>fs.readdir\<close> hands to the callback is decided by the environment: an error
  (\<open>None\<close>), or the names of the entries of the directory in the order the operating
  system lists them (\<open>Some files\<close>).
\<close>

definition list_uploads_handler :: "state \<Rightarrow> string list option \<Rightarrow> response \<times> state" where
  "list_uploads_handler st readdir =
     (case readdir of
        None \<Rightarrow> ((500, Error ''read failed''), st)
      | Some files \<Rightarrow> ((200, OkUploads (map (\<lambda>f. (''/uploads/'' @ f, f)) files)), st))"

definition list_uploads :: "state \<Rightarrow> sid \<Rightarrow> string list option \<Rightarrow> response \<times> state" where
  "list_uploads st sid readdir =
     (case adminRequired st sid of
        Some r \<Rightarrow> (r, st)
      | None \<Rightarrow> list_uploads_handler st readdir)"

section \<open>Upload\<close>

text \<open>The file part of a multipart request: the name the client gave, and its length.\<close>

record upload_file =
  originalname :: string
  nbytes :: nat

text \<open>\<^verbatim>\<open>limits: { fileSize: 2 * 1024 * 1024 * 1024 }\<close>\<close>

definition fileSize :: nat where
  "fileSize = 2 * 1024 * 1024 * 1024"

text \<open>The decimal digits of \<^verbatim>\<open>Date.now()\<close>, as string concatenation writes a number.\<close>

definition digit_char :: "nat \<Rightarrow> char" where
  "digit_char d = ''0123456789'' ! d"

fun string_of_nat :: "nat \<Rightarrow> string" where
  "string_of_nat n =
     (if n < 10 then [digit_char n]
      else string_of_nat (n div 10) @ [digit_char (n mod 10)])"

declare string_of_nat.simps [simp del]

text \<open>
  The class \<^verbatim>\<open>\s\<close> among the code units below 256: tab, line feed, vertical tab, form
  feed, carriage return, space and no-break space.
\<close>

definition is_space :: "char \<Rightarrow> bool" where
  "is_space c =
     (c \<in> set [CHR 0x09, CHR 0x0A, CHR 0x0B, CHR 0x0C, CHR 0x0D, CHR 0x20, CHR 0xA0])"

text \<open>
  \<^verbatim>\<open>s.replace(/\s+/g, '_')\<close>: scanning from the left, a match of \<^verbatim>\<open>\s+\<close> takes all the
  white space that follows and is replaced by one underscore; any other code unit is
  copied.
\<close>

function replace_ws :: "string \<Rightarrow> string" where
  "replace_ws [] = []"
| "replace_ws (c # cs) =
     (if is_space c then CHR ''_'' # replace_ws (dropWhile is_space cs)
      else c # replace_ws cs)"
  by pat_completeness auto
termination
  by (relation "measure length") (auto simp: le_imp_less_Suc length_dropWhile_le)

text \<open>
  \<^verbatim>\<open>
  filename: function (req, file, cb) {
    const unique = Date.now() + '-' + file.originalname.replace(/\s+/g, '_');
    cb(null, unique);
  }
  \<close>
\<close>

definition filename :: "nat \<Rightarrow> upload_file \<Rightarrow> string" where
  "filename now file = string_of_nat now @ ''-'' @ replace_ws (originalname file)"

text \<open>
  \<^verbatim>\<open>path.basename\<close>: trailing separators are dropped, then the part after the last
  separator is returned.
\<close>

definition basename :: "string \<Rightarrow> string" where
  "basename p =
     rev (takeWhile (\<lambda>c. c \<noteq> CHR ''/'') (dropWhile (\<lambda>c. c = CHR ''/'') (rev p)))"

text \<open>
  \<^verbatim>\<open>upload.single('video')\<close> with the disk storage above. The multipart decoder hands
  over the base name of the client's file name, so \<open>originalname\<close> holds no \<^verbatim>\<open>/\<close>, and a
  part without a file name is skipped. The storage writes the stream to
  \<^verbatim>\<open>path.join(uploadsDir, unique)\<close>, which for such a name is the directory, a separator
  and the name. When the stream is longer than \<open>fileSize\<close>, the middleware removes
  what it wrote and passes an error with the code \<^verbatim>\<open>LIMIT_FILE_SIZE\<close> to \<^verbatim>\<open>next\<close>.
  Writing to the directory is taken to succeed; a write that overwrites an entry of
  the same name replaces it.
\<close>

datatype multer_result = NoFile | Failed string | Stored string string

definition upload_single ::
  "string \<Rightarrow> state \<Rightarrow> nat \<Rightarrow> upload_file option \<Rightarrow> multer_result \<times> state" where
  "upload_single uploadsDir st now part =
     (case part of
        None \<Rightarrow> (NoFile, st)
      | Some file \<Rightarrow>
          if originalname file = [] then (NoFile, st)
          else
            (let unique = filename now file in
             if fileSize < nbytes file
             then (Failed ''LIMIT_FILE_SIZE'',
                   st\<lparr>uploads := AList.delete unique (uploads st)\<rparr>)
             else (Stored (uploadsDir @ ''/'' @ unique) (originalname file),
                   st\<lparr>uploads := AList.update unique (nbytes file) (uploads st)\<rparr>)))"

text \<open>
  \<^verbatim>\<open>
  app.post('/api/upload', authRequired, upload.single('video'), (req, res) => {
    if (!req.file) return res.status(400).json({ error: 'no file' });
    const urlPath = '/uploads/' + path.basename(req.file.path);
    return res.json({ ok: true, file: urlPath, name: req.file.originalname });
  });
  \<close>
  \<^verbatim>\<open>server.js\<close> registers no error-handling middleware: an error passed to \<^verbatim>\<open>next\<close> is
  answered by the framework's default handler, with status 500 (the error carries no
  status of its own) and a body that is not JSON.
\<close>

definition upload ::
  "string \<Rightarrow> state \<Rightarrow> sid \<Rightarrow> nat \<Rightarrow> upload_file option \<Rightarrow> response \<times> state" where
  "upload uploadsDir st sid now part =
     (case authRequired st sid of
        Some r \<Rightarrow> (r, st)
      | None \<Rightarrow>
          (case upload_single uploadsDir st now part of
             (NoFile, st') \<Rightarrow> ((400, Error ''no file''), st')
           | (Failed code, st') \<Rightarrow> ((500, DefaultErrorPage), st')
           | (Stored p name, st') \<Rightarrow> ((200, OkFile (''/uploads/'' @ basename p) name), st')))"

section \<open>The stored name in the words of the specification\<close>

text \<open>
  The maximal runs of a string: each run is a longest stretch of code units that are
  all white space or all not.
\<close>

function runs :: "string \<Rightarrow> string list" where
  "runs [] = []"
| "runs (c # cs) =
     (c # takeWhile (\<lambda>d. is_space d = is_space c) cs)
       # runs (dropWhile (\<lambda>d. is_space d = is_space c) cs)"
  by pat_completeness auto
termination
  by (relation "measure length") (auto simp: le_imp_less_Suc length_dropWhile_le)

text \<open>Every maximal run of white space is replaced by a single underscore.\<close>

definition spec_collapse_whitespace :: "string \<Rightarrow> string" where
  "spec_collapse_whitespace s =
     concat (map (\<lambda>r. case r of [] \<Rightarrow> [] | c # _ \<Rightarrow> if is_space c then ''_'' else r) (runs s))"

section \<open>Example states\<close>

text \<open>A fresh server on which \<open>alice\<close> has signed up from session 1.\<close>

definition alice_state :: state where
  "alice_state = snd (signup (init []) 1 (Str ''alice'') (Str ''pw1''))"

text \<open>The same server after the seeded administrator has logged in from session 0.\<close>

definition admin_state :: state where
  "admin_state = snd (login alice_state 0 (Str ''admin'') (Str ''adminpass''))"

text \<open>
  On that server a login without a password field as \<^verbatim>\<open>toString\<close> from session 2,
  then the login of the seeded administrator from session 0.
\<close>

definition roleless_state :: state where
  "roleless_state =
     snd (login (snd (login alice_state 2 (Str ''toString'') Undefined)) 0
            (Str ''admin'') (Str ''adminpass''))"

text \<open>Then the administrator's request to promote \<^verbatim>\<open>__proto__\<close>.\<close>

definition polluted_state :: state where
  "polluted_state = snd (promote roleless_state 0 (Str ''__proto__''))"

section \<open>Evaluation of the example states\<close>

lemmas handler_defs =
  signup_def login_def users_get_def object_prototype_keys_def polluted_def init_def

lemma alice_state_eq:
  "alice_state =
     \<lparr>users = [''admin'' \<mapsto> \<lparr>password = Str ''adminpass'', role = ''admin''\<rparr>,
               ''alice'' \<mapsto> \<lparr>password = Str ''pw1'', role = ''user''\<rparr>],
      tainted = {},
      sessions = [1 \<mapsto> \<lparr>su_username = Str ''alice'', su_role = Str ''user''\<rparr>],
      uploads = []\<rparr>"
  by (simp add: alice_state_def handler_defs)

lemma admin_state_eq:
  "admin_state =
     \<lparr>users = [''admin'' \<mapsto> \<lparr>password = Str ''adminpass'', role = ''admin''\<rparr>,
               ''alice'' \<mapsto> \<lparr>password = Str ''pw1'', role = ''user''\<rparr>],
      tainted = {},
      sessions = [1 \<mapsto> \<lparr>su_username = Str ''alice'', su_role = Str ''user''\<rparr>,
                  0 \<mapsto> \<lparr>su_username = Str ''admin'', su_role = Str ''admin''\<rparr>],
      uploads = []\<rparr>"
  by (simp add: admin_state_def alice_state_eq login_def users_get_def)

lemma roleless_state_eq:
  "roleless_state =
     \<lparr>users = [''admin'' \<mapsto> \<lparr>password = Str ''adminpass'', role = ''admin''\<rparr>,
               ''alice'' \<mapsto> \<lparr>password = Str ''pw1'', role = ''user''\<rparr>],
      tainted = {},
      sessions = [1 \<mapsto> \<lparr>su_username = Str ''alice'', su_role = Str ''user''\<rparr>,
                  2 \<mapsto> \<lparr>su_username = Str ''toString'', su_role = Undefined\<rparr>,
                  0 \<mapsto> \<lparr>su_username = Str ''admin'', su_role = Str ''admin''\<rparr>],
      uploads = []\<rparr>"
  by (simp add: roleless_state_def alice_state_eq login_def users_get_def
      object_prototype_keys_def polluted_def)

lemma polluted_state_eq:
  "polluted_state = roleless_state\<lparr>tainted := {''__proto__''}\<rparr>"
  by (simp add: polluted_state_def promote_def promote_handler_def adminRequired_def
      session_role_def users_get_def object_prototype_keys_def roleless_state_eq)

section \<open>Logout\<close>

text \<open>
  C9. Logout removes the binding of the request's session and nothing else, always
  answers 200 \<^verbatim>\<open>{ok:true}\<close>, and is idempotent: a second logout gives the same answer
  and the same state, and a logout without an active session leaves the state as it
  is.
\<close>

theorem logout_idempotent:
  "fst (logout st sid) = (200, Ok)
   \<and> snd (logout st sid) = st\<lparr>sessions := (sessions st)(sid := None)\<rparr>
   \<and> sessions (snd (logout st sid)) sid = None
   \<and> logout (snd (logout st sid)) sid = logout st sid
   \<and> (sessions st sid = None \<longrightarrow> logout st sid = ((200, Ok), st))"
proof -
  have "sessions st sid = None \<Longrightarrow> (sessions st)(sid := None) = sessions st"
    by (rule fun_upd_idem) simp
  then show ?thesis
    by (simp add: logout_def)
qed

theorem logout_idempotent_witness:
  "sessions alice_state 1 \<noteq> None
   \<and> fst (logout alice_state 1) = (200, Ok)
   \<and> sessions (snd (logout alice_state 1)) 1 = None
   \<and> logout (snd (logout alice_state 1)) 1 = logout alice_state 1
   \<and> logout (init []) 1 = ((200, Ok), init [])"
proof -
  have a: "sessions alice_state 1 \<noteq> None"
    by (simp add: alice_state_eq)
  have b: "sessions (init []) 1 = None"
    by (simp add: init_def)
  from logout_idempotent [of alice_state 1] logout_idempotent [of "init []" 1] a b
  show ?thesis by blast
qed

section \<open>The administrator gate\<close>

text \<open>
  The role read from a session is \<^verbatim>\<open>admin\<close> when that was stored, or when nothing was
  stored and \<^verbatim>\<open>Object.prototype\<close> provides it.
\<close>

lemma session_role_admin_iff:
  "session_role st su = Str ''admin'' \<longleftrightarrow>
     su_role su = Str ''admin'' \<or> (su_role su = Undefined \<and> polluted st)"
  by (cases "su_role su") (simp_all add: session_role_def)

text \<open>
  On both admin-only routes the gate lets the request through to the handler exactly
  when the session lookup succeeds and the role read from it is \<^verbatim>\<open>admin\<close>; otherwise
  the answer is 403 \<^verbatim>\<open>forbidden\<close> and the state is unchanged. Neither route ever
  answers 401.
\<close>

lemma adminRequired_routes:
  "((\<exists>su. sessions st sid = Some su \<and> session_role st su = Str ''admin'') \<longrightarrow>
        adminRequired st sid = None
        \<and> promote st sid username = promote_handler st username
        \<and> list_uploads st sid readdir = list_uploads_handler st readdir)
   \<and> (\<not> (\<exists>su. sessions st sid = Some su \<and> session_role st su = Str ''admin'') \<longrightarrow>
        adminRequired st sid = Some (403, Error ''forbidden'')
        \<and> promote st sid username = ((403, Error ''forbidden''), st)
        \<and> list_uploads st sid readdir = ((403, Error ''forbidden''), st))
   \<and> fst (fst (promote st sid username)) \<noteq> 401
   \<and> fst (fst (list_uploads st sid readdir)) \<noteq> 401"
proof -
  have p: "fst (fst (promote_handler st username)) \<noteq> 401"
    by (simp add: promote_handler_def Let_def)
  have l: "fst (fst (list_uploads_handler st readdir)) \<noteq> 401"
    by (simp add: list_uploads_handler_def split: option.split)
  show ?thesis
  proof (cases "\<exists>su. sessions st sid = Some su \<and> session_role st su = Str ''admin''")
    case True
    then have "adminRequired st sid = None"
      by (auto simp: adminRequired_def)
    with True p l show ?thesis
      by (simp add: promote_def list_uploads_def)
  next
    case False
    then have "adminRequired st sid = Some (403, Error ''forbidden'')"
      by (simp add: adminRequired_def split: option.split)
    with False show ?thesis
      by (simp add: promote_def list_uploads_def)
  qed
qed

text \<open>
  As long as \<^verbatim>\<open>Object.prototype\<close> carries no \<^verbatim>\<open>role\<close>, and in any state for a session
  that has a role of its own, the gate decides by the role bound to the session.
\<close>

lemma adminRequired_unpolluted:
  assumes "\<not> polluted st"
  shows "adminRequired st sid = None \<longleftrightarrow>
    (\<exists>su. sessions st sid = Some su \<and> su_role su = Str ''admin'')"
  using assms
  by (auto simp: adminRequired_def session_role_admin_iff split: option.splits if_splits)

lemma adminRequired_stored_role:
  assumes "sessions st sid = Some su" and "su_role su = Str r"
  shows "adminRequired st sid = None \<longleftrightarrow> r = ''admin''"
  using assms by (simp add: adminRequired_def session_role_def)

text \<open>
  C3. As specified, the gate lets a request pass only when the role bound to its session
  is \<^verbatim>\<open>admin\<close>, and answers 403 to every other session. Session 2 was created by a
  login as \<^verbatim>\<open>toString\<close> without a password field and is bound to no role. After the
  administrator's request \<^verbatim>\<open>{"username":"__proto__"}\<close> to promote, which writes \<^verbatim>\<open>role\<close>
  on \<^verbatim>\<open>Object.prototype\<close>, the gate reads \<^verbatim>\<open>admin\<close> from that session: both admin-only
  routes answer it 200.
\<close>

theorem adminRequired_roleless_session:
  "sessions polluted_state 2 = Some \<lparr>su_username = Str ''toString'', su_role = Undefined\<rparr>
   \<and> adminRequired polluted_state 2 = None
   \<and> list_uploads polluted_state 2 (Some []) = ((200, OkUploads []), polluted_state)
   \<and> fst (promote polluted_state 2 (Str ''alice'')) = (200, Ok)"
  by (simp add: polluted_state_eq roleless_state_eq adminRequired_def session_role_def
      polluted_def list_uploads_def list_uploads_handler_def promote_def promote_handler_def
      users_get_def)

section \<open>The credential store\<close>

text \<open>Login as a user with a stored record: the password decides, by plain equality.\<close>

lemma login_stored_user:
  assumes "users st k = Some u"
  shows "login st sid (Str k) pw =
    (if password u = pw
     then ((200, Ok),
           st\<lparr>sessions := (sessions st)(sid \<mapsto> \<lparr>su_username = Str k, su_role = Str (role u)\<rparr>)\<rparr>)
     else ((401, Error ''invalid''), st))"
  using assms by (simp add: login_def users_get_def)

text \<open>A key that is neither stored nor found in \<^verbatim>\<open>Object.prototype\<close> is rejected.\<close>

lemma login_unknown_user:
  assumes "users st k = None" and "k \<notin> set object_prototype_keys" and "\<not> polluted st"
  shows "login st sid (Str k) pw = ((401, Error ''invalid''), st)"
  using assms by (simp add: login_def users_get_def)

text \<open>
  Whenever the request carries a password, login is decided by the stored records
  alone: nothing inherited has a \<^verbatim>\<open>password\<close> that equals a string.
\<close>

lemma login_with_password:
  "login st sid (Str k) (Str p) =
     (case users st k of
        None \<Rightarrow> ((401, Error ''invalid''), st)
      | Some u \<Rightarrow>
          if password u = Str p
          then ((200, Ok),
                st\<lparr>sessions := (sessions st)(sid \<mapsto>
                     \<lparr>su_username = Str k, su_role = Str (role u)\<rparr>)\<rparr>)
          else ((401, Error ''invalid''), st))"
  by (simp add: login_def users_get_def split: option.split)

text \<open>
  C1. As specified, login answers 401 when the username is absent from the credential
  store. On the freshly started server the request \<^verbatim>\<open>{"username":"constructor"}\<close>,
  with no password field, is answered 200 \<^verbatim>\<open>{ok:true}\<close>, although no user of that name
  is stored: \<^verbatim>\<open>users['constructor']\<close> finds the member inherited from
  \<^verbatim>\<open>Object.prototype\<close>, whose \<^verbatim>\<open>password\<close> is \<^verbatim>\<open>undefined\<close>, as is the absent field. The
  session is bound to that name and passes \<open>authRequired\<close>.
\<close>

theorem login_inherited_member:
  "users (init []) ''constructor'' = None
   \<and> login (init []) 0 (Str ''constructor'') Undefined =
      ((200, Ok), (init [])\<lparr>sessions :=
         [0 \<mapsto> \<lparr>su_username = Str ''constructor'', su_role = Undefined\<rparr>]\<rparr>)
   \<and> authRequired (snd (login (init []) 0 (Str ''constructor'') Undefined)) 0 = None"
  by (simp add: login_def users_get_def object_prototype_keys_def init_def polluted_def
      authRequired_def)

text \<open>Signup: an empty field, a stored name, and a fresh name.\<close>

lemma signup_missing:
  assumes "falsy username \<or> falsy pw"
  shows "signup st sid username pw = ((400, Error ''missing''), st)"
  using assms by (auto simp: signup_def)

lemma signup_conflict:
  assumes "users st k = Some u" and "k \<noteq> []" and "\<not> falsy pw"
  shows "signup st sid (Str k) pw = ((409, Error ''exists''), st)"
  using assms by (simp add: signup_def users_get_def)

lemma signup_fresh:
  assumes "users st k = None" and "k \<notin> set object_prototype_keys" and "\<not> polluted st"
    and "k \<noteq> []" and "\<not> falsy pw"
  shows "signup st sid (Str k) pw =
    ((200, Ok),
     st\<lparr>users := (users st)(k \<mapsto> \<lparr>password = pw, role = ''user''\<rparr>),
        sessions := (sessions st)(sid \<mapsto> \<lparr>su_username = Str k, su_role = Str ''user''\<rparr>)\<rparr>)"
  using assms by (simp add: signup_def users_get_def)

lemma signup_twice:
  assumes "fst (signup st sid (Str k) pw) = (200, Ok)"
  shows "signup (snd (signup st sid (Str k) pw)) sid' (Str k) pw' =
    (if falsy pw' then ((400, Error ''missing''), snd (signup st sid (Str k) pw))
     else ((409, Error ''exists''), snd (signup st sid (Str k) pw)))"
proof -
  let ?st' = "st\<lparr>users := (users st)(k \<mapsto> \<lparr>password = pw, role = ''user''\<rparr>),
        sessions := (sessions st)(sid \<mapsto> \<lparr>su_username = Str k, su_role = Str ''user''\<rparr>)\<rparr>"
  from assms have ok: "\<not> falsy (Str k)" "\<not> falsy pw" "\<not> truthy (users_get st k)"
    by (auto simp: signup_def split: if_splits)
  then have eq: "snd (signup st sid (Str k) pw) = ?st'"
    by (simp add: signup_def)
  have "users_get ?st' k = Rec \<lparr>password = pw, role = ''user''\<rparr>"
    by (simp add: users_get_def)
  then have "signup ?st' sid' (Str k) pw' =
    (if falsy pw' then ((400, Error ''missing''), ?st') else ((409, Error ''exists''), ?st'))"
    using ok(1) by (simp add: signup_def)
  then show ?thesis
    by (simp only: eq)
qed

text \<open>
  C2. As specified, a signup with both fields non-empty and a username that is not in
  the credential store creates the user. On the freshly started server the request
  \<^verbatim>\<open>{"username":"constructor","password":"pw"}\<close> is answered 409 \<^verbatim>\<open>exists\<close> and nothing is
  created, although no user of that name is stored: \<^verbatim>\<open>users['constructor']\<close> is the
  member inherited from \<^verbatim>\<open>Object.prototype\<close>, which is truthy.
\<close>

theorem signup_inherited_member:
  "users (init []) ''constructor'' = None
   \<and> signup (init []) 0 (Str ''constructor'') (Str ''pw'') = ((409, Error ''exists''), init [])"
  by (simp add: signup_def users_get_def object_prototype_keys_def init_def)

text \<open>
  C5. As specified, every session's username is the key of a stored user. After the
  login request \<^verbatim>\<open>{"username":"toString"}\<close> (no password field) the session is bound
  to the name \<^verbatim>\<open>toString\<close>, for which no user record exists, before or after.
\<close>

theorem session_without_user:
  "sessions (snd (login alice_state 2 (Str ''toString'') Undefined)) 2 =
      Some \<lparr>su_username = Str ''toString'', su_role = Undefined\<rparr>
   \<and> users alice_state ''toString'' = None
   \<and> users (snd (login alice_state 2 (Str ''toString'') Undefined)) ''toString'' = None"
  by (simp add: login_def users_get_def object_prototype_keys_def alice_state_eq polluted_def)

section \<open>Promote\<close>

lemma promote_handler_stored:
  assumes "users st (to_key username) = Some u"
  shows "promote_handler st username =
    ((200, Ok), st\<lparr>users := (users st)(to_key username \<mapsto> u\<lparr>role := ''admin''\<rparr>)\<rparr>)"
  using assms by (simp add: promote_handler_def users_get_def)

lemma session_role_users_update:
  "session_role (st\<lparr>users := m\<rparr>) su = session_role st su"
  by (simp add: session_role_def polluted_def)

lemma adminRequired_users_update:
  "adminRequired (st\<lparr>users := m\<rparr>) sid = adminRequired st sid"
  by (simp add: adminRequired_def session_role_users_update split: option.split)

lemma adminRequired_role_user:
  assumes "sessions st sid = Some su" and "su_role su = Str ''user''"
  shows "adminRequired st sid = Some (403, Error ''forbidden'')"
  using assms by (simp add: adminRequired_def session_role_def)

text \<open>
  When an administrator promotes a stored user, the only change of the state is that
  user's role: the password, every other user record, every session and every stored
  file are as before. The gate decides every session as before, and a session whose
  role is \<^verbatim>\<open>user\<close>, that of the promoted user included, is still answered 403 on both
  admin-only routes.
\<close>

lemma promote_stored_user_frame:
  assumes admin: "adminRequired st sid = None"
    and stored: "users st (to_key username) = Some u"
  shows "promote st sid username =
      ((200, Ok), st\<lparr>users := (users st)(to_key username \<mapsto> u\<lparr>role := ''admin''\<rparr>)\<rparr>)
    \<and> sessions (snd (promote st sid username)) = sessions st
    \<and> uploads (snd (promote st sid username)) = uploads st
    \<and> tainted (snd (promote st sid username)) = tainted st
    \<and> users (snd (promote st sid username)) (to_key username) =
        Some \<lparr>password = password u, role = ''admin''\<rparr>
    \<and> (\<forall>k. k \<noteq> to_key username \<longrightarrow>
          users (snd (promote st sid username)) k = users st k)
    \<and> (\<forall>s. adminRequired (snd (promote st sid username)) s = adminRequired st s)
    \<and> (\<forall>s su x readdir. sessions st s = Some su \<and> su_role su = Str ''user'' \<longrightarrow>
          promote (snd (promote st sid username)) s x =
            ((403, Error ''forbidden''), snd (promote st sid username))
          \<and> list_uploads (snd (promote st sid username)) s readdir =
            ((403, Error ''forbidden''), snd (promote st sid username)))"
proof -
  let ?st' = "st\<lparr>users := (users st)(to_key username \<mapsto> u\<lparr>role := ''admin''\<rparr>)\<rparr>"
  have eq: "promote st sid username = ((200, Ok), ?st')"
    using admin stored by (simp add: promote_def promote_handler_stored)
  have gate: "adminRequired ?st' s = adminRequired st s" for s
    by (rule adminRequired_users_update)
  have still: "promote ?st' s x = ((403, Error ''forbidden''), ?st')
      \<and> list_uploads ?st' s readdir = ((403, Error ''forbidden''), ?st')"
    if "sessions st s = Some su" and "su_role su = Str ''user''" for s su x readdir
  proof -
    from that have "adminRequired st s = Some (403, Error ''forbidden'')"
      by (rule adminRequired_role_user)
    then have "adminRequired ?st' s = Some (403, Error ''forbidden'')"
      by (simp only: gate)
    then show ?thesis
      by (simp add: promote_def list_uploads_def)
  qed
  have u: "u\<lparr>role := ''admin''\<rparr> = \<lparr>password = password u, role = ''admin''\<rparr>"
    by simp
  show ?thesis
    unfolding eq snd_conv
    using gate still by (simp add: u)
qed


text \<open>After the promotion a new login of that user gives a session that passes the gate.\<close>

lemma promote_then_login:
  assumes "adminRequired st sid = None" and "users st k = Some u"
  shows "fst (login (snd (promote st sid (Str k))) s (Str k) (password u)) = (200, Ok)
    \<and> sessions (snd (login (snd (promote st sid (Str k))) s (Str k) (password u))) s =
        Some \<lparr>su_username = Str k, su_role = Str ''admin''\<rparr>
    \<and> adminRequired (snd (login (snd (promote st sid (Str k))) s (Str k) (password u))) s = None"
proof -
  have "promote st sid (Str k) =
      ((200, Ok), st\<lparr>users := (users st)(k \<mapsto> u\<lparr>role := ''admin''\<rparr>)\<rparr>)"
    using assms by (simp add: promote_def promote_handler_stored)
  then show ?thesis
    by (simp add: login_stored_user [where u = "u\<lparr>role := ''admin''\<rparr>"]
        adminRequired_def session_role_def)
qed

lemma promote_not_found:
  assumes "adminRequired st sid = None" and "users st k = None"
    and "k \<notin> set object_prototype_keys" and "\<not> polluted st"
  shows "promote st sid (Str k) = ((404, Error ''no user''), st)"
  using assms by (simp add: promote_def promote_handler_def users_get_def)

text \<open>
  C10. As specified, promote changes nothing but the role of the targeted user, and no
  session gains access to the admin-only routes without a new login. The
  administrator's request \<^verbatim>\<open>{"username":"__proto__"}\<close> is answered 200 although no such
  user is stored; users and sessions are as before, but the assignment writes \<^verbatim>\<open>role\<close>
  on \<^verbatim>\<open>Object.prototype\<close>, and the existing session 2, bound to no role and answered
  403 before, passes the gate afterwards.
\<close>

theorem promote_prototype_gate:
  "adminRequired roleless_state 0 = None
   \<and> users roleless_state ''__proto__'' = None
   \<and> adminRequired roleless_state 2 = Some (403, Error ''forbidden'')
   \<and> promote roleless_state 0 (Str ''__proto__'') =
      ((200, Ok), roleless_state\<lparr>tainted := {''__proto__''}\<rparr>)
   \<and> sessions (snd (promote roleless_state 0 (Str ''__proto__''))) = sessions roleless_state
   \<and> users (snd (promote roleless_state 0 (Str ''__proto__''))) = users roleless_state
   \<and> adminRequired (snd (promote roleless_state 0 (Str ''__proto__''))) 2 = None"
proof -
  have a: "adminRequired roleless_state 0 = None"
    "adminRequired roleless_state 2 = Some (403, Error ''forbidden'')"
    "users roleless_state ''__proto__'' = None"
    by (simp_all add: roleless_state_eq adminRequired_def session_role_def polluted_def)
  have p: "promote roleless_state 0 (Str ''__proto__'') =
      ((200, Ok), roleless_state\<lparr>tainted := {''__proto__''}\<rparr>)"
    using a(1,3)
    by (simp add: promote_def promote_handler_def users_get_def object_prototype_keys_def)
      (simp add: roleless_state_eq)
  have g: "adminRequired (roleless_state\<lparr>tainted := {''__proto__''}\<rparr>) 2 = None"
    by (simp add: roleless_state_eq adminRequired_def session_role_def polluted_def)
  from a p g show ?thesis
    by simp
qed

text \<open>
  C4. As specified, promote answers 404 when the username is absent from the credential
  store. For the administrator's request \<^verbatim>\<open>{"username":"constructor"}\<close> the answer is 200
  \<^verbatim>\<open>{ok:true}\<close>, although no user of that name is stored: \<^verbatim>\<open>users['constructor']\<close> is the
  member inherited from \<^verbatim>\<open>Object.prototype\<close>, and the assignment writes \<^verbatim>\<open>role\<close> on it.
\<close>

theorem promote_inherited_member:
  "users admin_state ''constructor'' = None
   \<and> promote admin_state 0 (Str ''constructor'') =
      ((200, Ok), admin_state\<lparr>tainted := {''constructor''}\<rparr>)"
  by (simp add: promote_def promote_handler_def adminRequired_def session_role_def
      users_get_def object_prototype_keys_def admin_state_eq)

section \<open>The stored name of an upload\<close>

text \<open>
  The runs partition the string; each run is non-empty and of one kind, and adjacent
  runs are of different kinds, so every run is maximal.
\<close>

lemma concat_runs: "concat (runs s) = s"
  by (induction s rule: runs.induct) simp_all

lemma runs_homogeneous:
  "r \<in> set (runs s) \<Longrightarrow> r \<noteq> [] \<and> (\<forall>d \<in> set r. is_space d = is_space (hd r))"
proof (induction s arbitrary: r rule: runs.induct)
  case 1
  then show ?case by simp
next
  case (2 c cs)
  show ?case
  proof (cases "r = c # takeWhile (\<lambda>d. is_space d = is_space c) cs")
    case True
    then show ?thesis
      by (auto dest: set_takeWhileD)
  next
    case False
    with "2.prems" have "r \<in> set (runs (dropWhile (\<lambda>d. is_space d = is_space c) cs))"
      by simp
    then show ?thesis
      by (rule "2.IH")
  qed
qed

lemma runs_alternate:
  assumes "runs s = r # r' # rest"
  shows "is_space (hd r') \<noteq> is_space (hd r)"
proof (cases s)
  case Nil
  with assms show ?thesis by simp
next
  case (Cons c cs)
  let ?P = "\<lambda>d. is_space d = is_space c"
  from assms Cons have r: "r = c # takeWhile ?P cs" and rest: "runs (dropWhile ?P cs) = r' # rest"
    by simp_all
  from rest obtain c' cs' where d: "dropWhile ?P cs = c' # cs'"
    by (cases "dropWhile ?P cs") auto
  then have "\<not> ?P c'"
    using hd_dropWhile [of ?P cs] by simp
  moreover from rest have "runs (c' # cs') = r' # rest"
    by (simp only: d)
  then have "hd r' = c'"
    by (cases r') simp_all
  ultimately show ?thesis
    using r by simp
qed

text \<open>The replacement copies what is not white space.\<close>

lemma replace_ws_no_space:
  "\<forall>c \<in> set xs. \<not> is_space c \<Longrightarrow> replace_ws (xs @ ys) = xs @ replace_ws ys"
  by (induction xs) simp_all

lemma replace_ws_takeWhile:
  "replace_ws cs =
     takeWhile (\<lambda>d. \<not> is_space d) cs @ replace_ws (dropWhile (\<lambda>d. \<not> is_space d) cs)"
proof -
  have "replace_ws (takeWhile (\<lambda>d. \<not> is_space d) cs @ dropWhile (\<lambda>d. \<not> is_space d) cs) =
      takeWhile (\<lambda>d. \<not> is_space d) cs @ replace_ws (dropWhile (\<lambda>d. \<not> is_space d) cs)"
    by (rule replace_ws_no_space) (auto dest: set_takeWhileD)
  then show ?thesis by simp
qed

text \<open>
  The replacement computed by the scan is the one the specification describes: every
  maximal run of white space becomes a single underscore.
\<close>

lemma replace_ws_spec: "replace_ws s = spec_collapse_whitespace s"
proof (induction s rule: length_induct)
  case (1 s)
  show ?case
  proof (cases s)
    case Nil
    then show ?thesis by (simp add: spec_collapse_whitespace_def)
  next
    case (Cons c cs)
    show ?thesis
    proof (cases "is_space c")
      case True
      then have p: "(\<lambda>d. is_space d = is_space c) = is_space"
        by auto
      have "length (dropWhile is_space cs) < length s"
        using Cons by (simp add: le_imp_less_Suc length_dropWhile_le)
      with 1 have "replace_ws (dropWhile is_space cs) = spec_collapse_whitespace (dropWhile is_space cs)"
        by blast
      with True Cons p show ?thesis
        by (simp add: spec_collapse_whitespace_def)
    next
      case False
      then have p: "(\<lambda>d. is_space d = is_space c) = (\<lambda>d. \<not> is_space d)"
        by auto
      have "length (dropWhile (\<lambda>d. \<not> is_space d) cs) < length s"
        using Cons by (simp add: le_imp_less_Suc length_dropWhile_le)
      with 1 have "replace_ws (dropWhile (\<lambda>d. \<not> is_space d) cs) =
          spec_collapse_whitespace (dropWhile (\<lambda>d. \<not> is_space d) cs)"
        by blast
      with False Cons p replace_ws_takeWhile [of cs] show ?thesis
        by (simp add: spec_collapse_whitespace_def)
    qed
  qed
qed

text \<open>The stored name holds no separator, so the base name of the written path is the stored name.\<close>

lemma digit_char_digit: "d < 10 \<Longrightarrow> digit_char d \<in> set ''0123456789''"
  unfolding digit_char_def by (rule nth_mem) simp

lemma string_of_nat_digits: "set (string_of_nat n) \<subseteq> set ''0123456789''"
proof (induction n rule: string_of_nat.induct)
  case (1 n)
  show ?case
  proof (cases "n < 10")
    case True
    with digit_char_digit [of n] show ?thesis
      by (subst string_of_nat.simps) simp
  next
    case False
    with 1 digit_char_digit [of "n mod 10"] show ?thesis
      by (subst string_of_nat.simps) simp
  qed
qed

lemma string_of_nat_no_slash: "CHR ''/'' \<notin> set (string_of_nat n)"
  using string_of_nat_digits [of n] by auto

lemma string_of_nat_not_Nil: "string_of_nat n \<noteq> []"
  by (subst string_of_nat.simps) simp

lemma set_replace_ws: "set (replace_ws s) \<subseteq> insert CHR ''_'' (set s)"
proof (induction s rule: replace_ws.induct)
  case 1
  show ?case by simp
next
  case (2 c cs)
  have "set (dropWhile is_space cs) \<subseteq> set cs"
    by (rule set_dropWhileD [THEN subsetI])
  with 2 show ?case
    by (cases "is_space c") auto
qed

lemma filename_no_slash:
  assumes "CHR ''/'' \<notin> set (originalname file)"
  shows "CHR ''/'' \<notin> set (filename now file)"
proof -
  from set_replace_ws [of "originalname file"] assms
  have "CHR ''/'' \<notin> set (replace_ws (originalname file))"
    by auto
  then show ?thesis
    by (simp add: filename_def string_of_nat_no_slash)
qed

lemma basename_join:
  assumes "CHR ''/'' \<notin> set n" and "n \<noteq> []"
  shows "basename (d @ ''/'' @ n) = n"
proof -
  from assms(2) obtain y ys where r: "rev n = y # ys"
    by (cases "rev n") auto
  with assms(1) have y: "y \<noteq> CHR ''/''"
    by (metis list.set_intros(1) set_rev)
  have all: "\<forall>c \<in> set (rev n). c \<noteq> CHR ''/''"
    using assms(1) by auto
  have "dropWhile (\<lambda>c. c = CHR ''/'') (rev (d @ ''/'' @ n)) = rev n @ CHR ''/'' # rev d"
    using r y by simp
  moreover have "takeWhile (\<lambda>c. c \<noteq> CHR ''/'') (rev n @ CHR ''/'' # rev d) = rev n"
    using all by (subst takeWhile_append2) auto
  ultimately show ?thesis
    by (simp add: basename_def)
qed

text \<open>An upload is answered 200 only from a session, for a named file within the ceiling.\<close>

lemma upload_success_cases:
  assumes "fst (fst (upload uploadsDir st sid now part)) = 200"
  shows "\<exists>su file. sessions st sid = Some su \<and> part = Some file
    \<and> originalname file \<noteq> [] \<and> nbytes file \<le> fileSize"
  using assms
  by (auto simp: upload_def authRequired_def upload_single_def Let_def
      split: option.splits if_splits)

text \<open>
  C6. A successful upload from an authenticated session stores the file under the
  decimal timestamp, a hyphen, and the original name in which every maximal run of
  white space is replaced by a single underscore; the answer is 200 with the path
  \<^verbatim>\<open>/uploads/\<close> followed by that stored name, and the original name. The original name
  is a non-empty base name, as the multipart decoder delivers it, and the stream is no
  longer than the ceiling.
\<close>

theorem upload_stored_name:
  assumes "sessions st sid = Some su"
    and "originalname file \<noteq> []"
    and "CHR ''/'' \<notin> set (originalname file)"
    and "nbytes file \<le> fileSize"
  shows "upload uploadsDir st sid now (Some file) =
      ((200, OkFile (''/uploads/'' @ string_of_nat now @ ''-''
                      @ spec_collapse_whitespace (originalname file))
                    (originalname file)),
       st\<lparr>uploads := AList.update
            (string_of_nat now @ ''-'' @ spec_collapse_whitespace (originalname file))
            (nbytes file) (uploads st)\<rparr>)"
proof -
  have name: "filename now file =
      string_of_nat now @ ''-'' @ spec_collapse_whitespace (originalname file)"
    by (simp add: filename_def replace_ws_spec)
  have "filename now file \<noteq> []"
    by (simp add: filename_def)
  with assms(3) have "basename (uploadsDir @ ''/'' @ filename now file) = filename now file"
    by (intro basename_join filename_no_slash)
  with assms(1,2,4) have "upload uploadsDir st sid now (Some file) =
      ((200, OkFile (''/uploads/'' @ filename now file) (originalname file)),
       st\<lparr>uploads := AList.update (filename now file) (nbytes file) (uploads st)\<rparr>)"
    by (simp add: upload_def authRequired_def upload_single_def Let_def)
  then show ?thesis
    by (simp only: name)
qed

theorem upload_stored_name_witness:
  "upload ''/srv/app/uploads'' alice_state 1 1700000000000
      (Some \<lparr>originalname = ''my  holiday clip.mp4'', nbytes = 5\<rparr>) =
     ((200, OkFile ''/uploads/1700000000000-my_holiday_clip.mp4'' ''my  holiday clip.mp4''),
      alice_state\<lparr>uploads := [(''1700000000000-my_holiday_clip.mp4'', 5)]\<rparr>)"
proof -
  let ?file = "\<lparr>originalname = ''my  holiday clip.mp4'', nbytes = 5\<rparr>"
  have a: "sessions alice_state 1 = Some \<lparr>su_username = Str ''alice'', su_role = Str ''user''\<rparr>"
    by (simp add: alice_state_eq)
  have b: "originalname ?file \<noteq> []" "CHR ''/'' \<notin> set (originalname ?file)"
    "nbytes ?file \<le> fileSize"
    by (simp_all add: fileSize_def)
  have c: "string_of_nat 1700000000000 = ''1700000000000''"
    by (simp add: string_of_nat.simps digit_char_def)
  have d: "spec_collapse_whitespace ''my  holiday clip.mp4'' = ''my_holiday_clip.mp4''"
    by (simp add: spec_collapse_whitespace_def is_space_def)
  have e: "uploads alice_state = []"
    by (simp add: alice_state_eq)
  from upload_stored_name [OF a b, of "''/srv/app/uploads''" 1700000000000]
  show ?thesis
    by (simp add: c d e)
qed

section \<open>When two stored names coincide\<close>

text \<open>
  The timestamp is read back from the stored name, so two stored names are equal
  exactly when the timestamps are equal and the original names agree after the
  replacement of white space.
\<close>

lemma string_of_nat_no_hyphen: "CHR ''-'' \<notin> set (string_of_nat n)"
  using string_of_nat_digits [of n] by auto

lemma digit_char_inj:
  assumes "d < 10" and "e < 10" and "digit_char d = digit_char e"
  shows "d = e"
proof -
  from assms(1) have d: "d \<in> {0, 1, 2, 3, 4, 5, 6, 7, 8, 9}" by auto
  from assms(2) have e: "e \<in> {0, 1, 2, 3, 4, 5, 6, 7, 8, 9}" by auto
  from d e assms(3) show ?thesis
    by (auto simp: digit_char_def)
qed

lemma string_of_nat_inj: "string_of_nat n = string_of_nat m \<Longrightarrow> n = m"
proof (induction n arbitrary: m rule: string_of_nat.induct)
  case (1 n)
  have small: "string_of_nat k = [digit_char k]" if "k < 10" for k
    using that by (subst string_of_nat.simps) simp
  have big: "string_of_nat k = string_of_nat (k div 10) @ [digit_char (k mod 10)]"
    if "\<not> k < 10" for k
    using that by (subst string_of_nat.simps) simp
  have long: "length (string_of_nat k) \<noteq> 1" if "\<not> k < 10" for k
    using big [OF that] string_of_nat_not_Nil [of "k div 10"] by (cases "string_of_nat (k div 10)") auto
  show ?case
  proof (cases "n < 10")
    case n: True
    show ?thesis
    proof (cases "m < 10")
      case True
      with n "1.prems" show ?thesis
        by (simp add: small digit_char_inj)
    next
      case False
      from "1.prems" n have "string_of_nat m = [digit_char n]"
        by (simp add: small)
      then have "length (string_of_nat m) = 1"
        by simp
      with long [OF False] show ?thesis
        by simp
    qed
  next
    case n: False
    show ?thesis
    proof (cases "m < 10")
      case True
      from "1.prems" True have "string_of_nat n = [digit_char m]"
        by (simp add: small)
      then have "length (string_of_nat n) = 1"
        by simp
      with long [OF n] show ?thesis
        by simp
    next
      case False
      with n "1.prems" have "string_of_nat (n div 10) = string_of_nat (m div 10)"
        and "digit_char (n mod 10) = digit_char (m mod 10)"
        by (simp_all add: big)
      with "1.IH" [OF n] have "n div 10 = m div 10" and "n mod 10 = m mod 10"
        by (auto intro: digit_char_inj)
      then show ?thesis
        by (metis div_mult_mod_eq)
    qed
  qed
qed

lemma split_at_hyphen:
  assumes "a @ CHR ''-'' # x = b @ CHR ''-'' # y"
    and "CHR ''-'' \<notin> set a" and "CHR ''-'' \<notin> set b"
  shows "a = b \<and> x = y"
proof -
  have "takeWhile (\<lambda>c. c \<noteq> CHR ''-'') (a @ CHR ''-'' # x) = a"
    using assms(2) by (subst takeWhile_append2) auto
  moreover have "takeWhile (\<lambda>c. c \<noteq> CHR ''-'') (b @ CHR ''-'' # y) = b"
    using assms(3) by (subst takeWhile_append2) auto
  ultimately have "a = b"
    using assms(1) by simp
  with assms(1) show ?thesis by simp
qed

lemma filename_eq_iff:
  "filename t1 f1 = filename t2 f2 \<longleftrightarrow>
     t1 = t2 \<and> replace_ws (originalname f1) = replace_ws (originalname f2)"
proof
  assume "filename t1 f1 = filename t2 f2"
  then have "string_of_nat t1 @ CHR ''-'' # replace_ws (originalname f1) =
      string_of_nat t2 @ CHR ''-'' # replace_ws (originalname f2)"
    by (simp add: filename_def)
  then have "string_of_nat t1 = string_of_nat t2
      \<and> replace_ws (originalname f1) = replace_ws (originalname f2)"
    by (rule split_at_hyphen) (rule string_of_nat_no_hyphen)+
  then show "t1 = t2 \<and> replace_ws (originalname f1) = replace_ws (originalname f2)"
    by (auto dest: string_of_nat_inj)
next
  assume "t1 = t2 \<and> replace_ws (originalname f1) = replace_ws (originalname f2)"
  then show "filename t1 f1 = filename t2 f2"
    by (simp add: filename_def)
qed

text \<open>
  C7. As specified, two distinct successful uploads never get the same stored name. Two
  uploads of files named \<^verbatim>\<open>clip.mp4\<close> that the storage names within the same millisecond
  (\<^verbatim>\<open>Date.now()\<close> returns 1700000000000 for both) are both answered 200 with the same
  path, and the directory holds one entry, with the bytes of the second file.
\<close>

theorem upload_same_millisecond:
  "upload ''/srv/app/uploads'' alice_state 1 1700000000000
        (Some \<lparr>originalname = ''clip.mp4'', nbytes = 10\<rparr>) =
      ((200, OkFile ''/uploads/1700000000000-clip.mp4'' ''clip.mp4''),
       alice_state\<lparr>uploads := [(''1700000000000-clip.mp4'', 10)]\<rparr>)
   \<and> upload ''/srv/app/uploads'' (alice_state\<lparr>uploads := [(''1700000000000-clip.mp4'', 10)]\<rparr>)
        1 1700000000000 (Some \<lparr>originalname = ''clip.mp4'', nbytes = 20\<rparr>) =
      ((200, OkFile ''/uploads/1700000000000-clip.mp4'' ''clip.mp4''),
       alice_state\<lparr>uploads := [(''1700000000000-clip.mp4'', 20)]\<rparr>)"
proof -
  have n: "filename 1700000000000 \<lparr>originalname = ''clip.mp4'', nbytes = k\<rparr> =
      ''1700000000000-clip.mp4''" for k
    by (simp add: filename_def string_of_nat.simps digit_char_def is_space_def)
  have b: "basename ''/srv/app/uploads/1700000000000-clip.mp4'' = ''1700000000000-clip.mp4''"
    by (simp add: basename_def)
  show ?thesis
    by (simp add: upload_def authRequired_def upload_single_def Let_def fileSize_def
        alice_state_eq n b)
qed

section \<open>The size ceiling\<close>

text \<open>
  An upload without a session is answered 401 before the body is read; an upload
  whose stream is longer than the ceiling ends in the framework's default error
  answer, and no entry of the generated name is left in the directory.
\<close>

lemma upload_too_large:
  assumes "sessions st sid = Some su" and "originalname file \<noteq> []"
    and "fileSize < nbytes file"
  shows "upload uploadsDir st sid now (Some file) =
    ((500, DefaultErrorPage),
     st\<lparr>uploads := AList.delete (filename now file) (uploads st)\<rparr>)"
  using assms by (simp add: upload_def authRequired_def upload_single_def Let_def)

lemma upload_without_session:
  assumes "sessions st sid = None"
  shows "upload uploadsDir st sid now part = ((401, Error ''unauthorized''), st)"
  using assms by (simp add: upload_def authRequired_def)

text \<open>
  C8. As specified, an upload longer than 2 GiB is rejected with a structured
  \<^verbatim>\<open>PayloadTooLarge\<close> answer that carries a short code. For an authenticated upload of
  2 GiB and one byte, the middleware's error reaches no handler of \<^verbatim>\<open>server.js\<close>: the
  answer is the framework's default error page with status 500, not a JSON body with
  a code. The ceiling is 2 GiB, and nothing is stored.
\<close>

theorem upload_over_ceiling:
  "fileSize = 2147483648
   \<and> upload ''/srv/app/uploads'' alice_state 1 1700000000000
        (Some \<lparr>originalname = ''big.mp4'', nbytes = 2147483649\<rparr>) =
      ((500, DefaultErrorPage), alice_state)"
  by (simp add: upload_def authRequired_def upload_single_def fileSize_def alice_state_eq)

end
